theory Spec2Isabelle
  imports Main "HOL-Library.Word"
begin

section \<open>The MyTube API gateway (src/HW3/API/api.py)\<close>

text \<open>
  The gateway is a FastAPI application whose handlers are module-level functions. Each
  handler is embedded as a HOL function from its (already parsed) request to
  \<open>error + response\<close>: \<open>Inl\<close> is an exception leaving the handler, \<open>Inr\<close> the
  returned response model. The module keeps no mutable state, so no handler takes or
  returns a state; the two impure calls of the module, \<^verbatim>\<open>uuid4()\<close> and
  \<^verbatim>\<open>datetime.now(...)\<close>, are read from a \<open>runtime\<close> argument.

  Enum members are capitalised (\<open>Public\<close> for \<^verbatim>\<open>Visibility.public\<close>), the field
  \<^verbatim>\<open>id\<close> is \<open>id'\<close> and the field \<^verbatim>\<open>size\<close> is \<open>size'\<close>; every other name
  is the source's. Fields that several models share are written qualified
  (\<open>PublishRequest.video_id\<close>).
\<close>

subsection \<open>Values, exceptions and the runtime\<close>

type_synonym UUID = "128 word"

text \<open>A \<^verbatim>\<open>datetime\<close> is a point in time, in microseconds since the epoch.\<close>

type_synonym datetime = int

datatype error =
    HTTPException int string
  | NameError string
  | ValidationError string
  | ValueError string

text \<open>
  \<open>uuid4 rt k\<close> is what the \<open>k\<close>-th call of \<^verbatim>\<open>uuid4()\<close> inside one handler
  invocation returns, \<open>now rt k\<close> what the \<open>k\<close>-th call of \<^verbatim>\<open>datetime.now\<close> returns
  (both counted from 0).
\<close>

record runtime =
  uuid4 :: "nat \<Rightarrow> UUID"
  now :: "nat \<Rightarrow> datetime"

text \<open>
  Python's \<^verbatim>\<open>range(a, b)\<close> and \<^verbatim>\<open>str\<close> of an int. CPython refuses to convert an
  int whose decimal digits, the sign not counted, are more than
  \<^verbatim>\<open>sys.get_int_max_str_digits()\<close> (4300 unless the host changes it): \<^verbatim>\<open>str\<close>,
  and an f-string that formats the int, raise \<^verbatim>\<open>ValueError\<close>.
\<close>

definition py_range :: "int \<Rightarrow> int \<Rightarrow> int list" where
  "py_range a b = [a..b - 1]"

function str_nat :: "nat \<Rightarrow> string" where
  "str_nat n =
     (if n < 10 then [''0123456789'' ! n]
      else str_nat (n div 10) @ [''0123456789'' ! (n mod 10)])"
  by pat_completeness auto
termination
  by (relation "measure (\<lambda>n. n)") auto

declare str_nat.simps [simp del]

definition int_max_str_digits :: nat where
  "int_max_str_digits = 4300"

definition str_digits_error :: error where
  "str_digits_error =
     ValueError (''Exceeds the limit (4300 digits) for integer string conversion; '' @
                 ''use sys.set_int_max_str_digits() to increase the limit'')"

definition str_int :: "int \<Rightarrow> error + string" where
  "str_int i =
     (let digits = str_nat (nat \<bar>i\<bar>)
      in if int_max_str_digits < length digits then Inl str_digits_error
         else Inr (if i < 0 then CHR ''-'' # digits else digits))"

text \<open>
  A list comprehension evaluates its elements from left to right; the first exception
  leaves it.
\<close>

primrec sequence_results :: "(error + 'a) list \<Rightarrow> error + 'a list" where
  "sequence_results [] = Inr []"
| "sequence_results (x # xs) =
     (case x of
        Inl e \<Rightarrow> Inl e
      | Inr v \<Rightarrow> (case sequence_results xs of Inl e \<Rightarrow> Inl e | Inr vs \<Rightarrow> Inr (v # vs)))"

text \<open>The truth value of a \<^verbatim>\<open>str | None\<close>: a non-empty string.\<close>

definition truthy :: "string option \<Rightarrow> bool" where
  "truthy s = (case s of Some (c # cs) \<Rightarrow> True | _ \<Rightarrow> False)"

subsection \<open>Common schemas\<close>

datatype SortOrder = Asc | Desc

record PageMeta =
  page :: int
  size' :: int
  total :: int

text \<open>
  Constructing the pydantic model validates \<^verbatim>\<open>page: Field(1, ge=1)\<close>,
  \<^verbatim>\<open>size: Field(20, ge=1, le=200)\<close> and \<^verbatim>\<open>total: Field(0, ge=0)\<close>; the
  \<^verbatim>\<open>ValidationError\<close> is modelled with the name of the first field that fails.
\<close>

definition PageMeta_init :: "int \<Rightarrow> int \<Rightarrow> int \<Rightarrow> error + PageMeta" where
  "PageMeta_init p s t =
     (if \<not> 1 \<le> p then Inl (ValidationError ''page'')
      else if \<not> (1 \<le> s \<and> s \<le> 200) then Inl (ValidationError ''size'')
      else if \<not> 0 \<le> t then Inl (ValidationError ''total'')
      else Inr \<lparr>page = p, size' = s, total = t\<rparr>)"

subsection \<open>Auth\<close>

record TokenPair =
  access_token :: string
  refresh_token :: string
  token_type :: string
  expires_in :: int

record RefreshRequest =
  refresh_token :: string

definition refresh :: "RefreshRequest \<Rightarrow> error + TokenPair" where
  "refresh body =
     (if RefreshRequest.refresh_token body = []
      then Inl (HTTPException 400 ''invalid refresh_token'')
      else Inr \<lparr>access_token = ''access.refreshed'',
                TokenPair.refresh_token = RefreshRequest.refresh_token body,
                token_type = ''Bearer'',
                expires_in = 3500\<rparr>)"

subsection \<open>Users\<close>

datatype UserRole = User | Moderator | Admin

record UserOut =
  id' :: UUID
  email :: string
  display_name :: "string option"
  bio :: "string option"
  role :: UserRole
  created_at :: datetime

text \<open>
  A handler body reads a name from its local scope (its parameters) and then from the
  module's globals; a name bound in neither (and in no builtin: Python has no builtin
  \<^verbatim>\<open>user_id\<close>) raises \<^verbatim>\<open>NameError\<close>. \<open>module_names\<close> lists every name that
  api.py binds at module level: its imports, classes, routers and functions.
\<close>

datatype pyobj = ModuleObject | StrValue string | UuidValue UUID

definition module_names :: "string list" where
  "module_names =
     [''datetime'', ''Enum'', ''Annotated'', ''UUID'', ''uuid4'', ''ZoneInfo'', ''APIRouter'',
      ''FastAPI'', ''File'', ''Form'', ''Header'', ''HTTPException'', ''BaseModel'',
      ''Field'', ''HttpUrl'', ''constr'', ''RedirectResponse'', ''app'', ''SortOrder'',
      ''PageMeta'', ''BaseOK'', ''PresignedPart'', ''auth'', ''TokenPair'', ''LoginRequest'',
      ''RefreshRequest'', ''login'', ''refresh'', ''logout'', ''users'', ''UserRole'',
      ''UserCreate'', ''UserUpdate'', ''UserOut'', ''create_user'', ''get_me'',
      ''update_user'', ''videos'', ''Visibility'', ''VideoCreate'', ''VideoOut'',
      ''VideoUpdate'', ''create_video'', ''get_video'', ''update_video'', ''delete_video'',
      ''search_videos'', ''uploads'', ''UploadInitRequest'', ''UploadInitResponse'',
      ''init_upload'', ''processing'', ''ProcessStatus'', ''get_processing_status'',
      ''PublishRequest'', ''PublishResponse'', ''publish_video'', ''social'',
      ''CommentCreate'', ''CommentOut'', ''create_comment'', ''get_comment'',
      ''delete_comment'', ''LikeRequest'', ''LikeStatus'', ''set_like'', ''ViewPing'',
      ''ViewAck'', ''ping_view'', ''notif'', ''NotifyRequest'', ''NotifyResponse'',
      ''send_notification'', ''stats'', ''VideoStats'', ''UserStats'', ''get_video_stats'',
      ''get_user_stats'', ''search'', ''SearchResponse'', ''search_videos_global'',
      ''service'', ''Health'', ''healthcheck'']"

definition load_name :: "(string \<times> pyobj) list \<Rightarrow> string \<Rightarrow> error + pyobj" where
  "load_name locals n =
     (case map_of locals n of
        Some v \<Rightarrow> Inr v
      | None \<Rightarrow> (if n \<in> set module_names then Inr ModuleObject else Inl (NameError n)))"

text \<open>
  \<^verbatim>\<open>get_me(authorization)\<close> evaluates \<^verbatim>\<open>UserOut(id=user_id, ...)\<close>: the first
  argument is the name \<^verbatim>\<open>user_id\<close>, looked up before anything else is computed. The
  model's \<open>id\<close> field takes a UUID and nothing else.
\<close>

definition get_me :: "runtime \<Rightarrow> string \<Rightarrow> error + UserOut" where
  "get_me rt authorization =
     (case load_name [(''authorization'', StrValue authorization)] ''user_id'' of
        Inl e \<Rightarrow> Inl e
      | Inr (UuidValue u) \<Rightarrow>
          Inr \<lparr>id' = u, email = ''demo@example.com'', display_name = Some ''Demo'',
               bio = None, role = User, created_at = now rt 0\<rparr>
      | Inr _ \<Rightarrow> Inl (ValidationError ''id''))"

subsection \<open>Videos\<close>

datatype Visibility = Public | Unlisted | Private

record VideoCreate =
  title :: string
  description :: "string option"
  tags :: "string list"
  visibility :: Visibility

record VideoOut =
  id' :: UUID
  owner_id :: UUID
  title :: string
  description :: "string option"
  tags :: "string list"
  visibility :: Visibility
  duration_sec :: "int option"
  status :: string
  created_at :: datetime

definition create_video :: "runtime \<Rightarrow> VideoCreate \<Rightarrow> UUID \<Rightarrow> error + VideoOut" where
  "create_video rt body user_id =
     Inr \<lparr>VideoOut.id' = uuid4 rt 0,
          owner_id = user_id,
          VideoOut.title = VideoCreate.title body,
          VideoOut.description = VideoCreate.description body,
          VideoOut.tags = VideoCreate.tags body,
          VideoOut.visibility = VideoCreate.visibility body,
          duration_sec = None,
          VideoOut.status = ''uploaded'',
          VideoOut.created_at = now rt 0\<rparr>"

subsection \<open>Uploads\<close>

record UploadInitResponse =
  video_id :: UUID

definition init_upload :: "runtime \<Rightarrow> string \<Rightarrow> string \<Rightarrow> 8 word list \<Rightarrow> error + UploadInitResponse" where
  "init_upload rt filename content_type file = Inr \<lparr>video_id = uuid4 rt 0\<rparr>"

subsection \<open>Processing and publish\<close>

record ProcessStatus =
  video_id :: UUID
  status :: string
  progress :: int

text \<open>
  Constructing the pydantic model validates \<^verbatim>\<open>progress: int = Field(0, ge=0, le=100)\<close>.
\<close>

definition ProcessStatus_init :: "UUID \<Rightarrow> string \<Rightarrow> int \<Rightarrow> error + ProcessStatus" where
  "ProcessStatus_init v s p =
     (if 0 \<le> p \<and> p \<le> 100
      then Inr \<lparr>ProcessStatus.video_id = v, ProcessStatus.status = s, progress = p\<rparr>
      else Inl (ValidationError ''progress''))"

definition get_processing_status :: "UUID \<Rightarrow> error + ProcessStatus" where
  "get_processing_status v = ProcessStatus_init v ''running'' 42"

record PublishRequest =
  video_id :: UUID
  make_public :: bool

record PublishResponse =
  video_id :: UUID
  visibility :: Visibility
  published_at :: datetime

definition publish_video :: "runtime \<Rightarrow> PublishRequest \<Rightarrow> error + PublishResponse" where
  "publish_video rt body =
     Inr \<lparr>PublishResponse.video_id = PublishRequest.video_id body,
          PublishResponse.visibility = (if make_public body then Public else Unlisted),
          published_at = now rt 0\<rparr>"

subsection \<open>Views\<close>

record ViewPing =
  video_id :: UUID
  position_sec :: int

record ViewAck =
  video_id :: UUID
  counted :: bool
  view_id :: "UUID option"

definition ping_view :: "runtime \<Rightarrow> ViewPing \<Rightarrow> error + ViewAck" where
  "ping_view rt body =
     (let counted = (position_sec body > 10)
      in Inr \<lparr>ViewAck.video_id = ViewPing.video_id body,
              counted = counted,
              view_id = (if counted then Some (uuid4 rt 0) else None)\<rparr>)"

subsection \<open>Search / Discovery\<close>

record SearchResponse =
  meta :: PageMeta
  items :: "VideoOut list"

text \<open>
  \<^verbatim>\<open>f"Found {q or tag or i}"\<close>: \<^verbatim>\<open>q\<close> when it is a non-empty string, else
  \<^verbatim>\<open>tag\<close> when it is a non-empty string, else the number \<^verbatim>\<open>i\<close>, whose
  formatting can raise.
\<close>

definition found_title :: "string option \<Rightarrow> string option \<Rightarrow> int \<Rightarrow> error + string" where
  "found_title q tag i =
     (case q of
        Some (c # cs) \<Rightarrow> Inr (''Found '' @ c # cs)
      | _ \<Rightarrow>
          (case tag of
             Some (c # cs) \<Rightarrow> Inr (''Found '' @ c # cs)
           | _ \<Rightarrow> (case str_int i of Inl e \<Rightarrow> Inl e | Inr s \<Rightarrow> Inr (''Found '' @ s))))"

text \<open>
  The comprehension runs over \<^verbatim>\<open>range((page - 1) * size, page * size)\<close>; its
  \<open>j\<close>-th round calls \<^verbatim>\<open>uuid4()\<close> twice (id, owner_id), formats the title and calls
  \<^verbatim>\<open>datetime.now\<close> once. \<^verbatim>\<open>PageMeta(page=page, size=size, total=1000)\<close> is
  constructed after the list, and its validation error leaves the handler. The parameters
  \<^verbatim>\<open>sort\<close>, \<^verbatim>\<open>page\<close> and \<^verbatim>\<open>size\<close> are \<open>sort'\<close>, \<open>pg\<close> and \<open>sz\<close> here.
\<close>

definition search_videos_global ::
  "runtime \<Rightarrow> string option \<Rightarrow> string option \<Rightarrow> SortOrder \<Rightarrow> int \<Rightarrow> int \<Rightarrow> error + SearchResponse" where
  "search_videos_global rt q tag sort' pg sz =
     (case sequence_results
             (map (\<lambda>(j, i).
                     case found_title q tag i of
                       Inl e \<Rightarrow> Inl e
                     | Inr t \<Rightarrow>
                         Inr \<lparr>VideoOut.id' = uuid4 rt (2 * j),
                              owner_id = uuid4 rt (2 * j + 1),
                              VideoOut.title = t,
                              VideoOut.description = None,
                              VideoOut.tags = [],
                              VideoOut.visibility = Public,
                              duration_sec = None,
                              VideoOut.status = ''ready'',
                              VideoOut.created_at = now rt j\<rparr>)
                  (enumerate 0 (py_range ((pg - 1) * sz) (pg * sz)))) of
        Inl e \<Rightarrow> Inl e
      | Inr vs \<Rightarrow>
          (case PageMeta_init pg sz 1000 of
             Inl e \<Rightarrow> Inl e
           | Inr m \<Rightarrow> Inr \<lparr>meta = m, items = vs\<rparr>))"

subsection \<open>Notions the properties are stated with\<close>

text \<open>
  The videos a sequence of \<^verbatim>\<open>publish_video\<close> calls has published (the calls that
  returned a response), and the videos a search response lists.
\<close>

definition published_ids :: "runtime \<Rightarrow> PublishRequest list \<Rightarrow> UUID set" where
  "published_ids rt calls =
     set (map PublishRequest.video_id (filter (\<lambda>b. \<not> isl (publish_video rt b)) calls))"

definition discoverable_ids :: "error + SearchResponse \<Rightarrow> UUID set" where
  "discoverable_ids res =
     (case res of Inl e \<Rightarrow> {} | Inr r \<Rightarrow> set (map VideoOut.id' (items r)))"

section \<open>Properties of the handlers\<close>

lemma module_names_no_user_id: "''user_id'' \<notin> set module_names"
  by (simp add: module_names_def)

lemma refresh_raises_iff:
  "refresh body = Inl (HTTPException 400 ''invalid refresh_token'')
     \<longleftrightarrow> RefreshRequest.refresh_token body = []"
  by (simp add: refresh_def)

lemma length_py_range: "length (py_range a b) = nat (b - a)"
  by (simp add: py_range_def)

lemma py_range_nth: "j < nat (b - a) \<Longrightarrow> py_range a b ! j = a + int j"
  by (simp add: py_range_def)

lemma map_enumerate_nth:
  "map g (enumerate 0 xs) = map (\<lambda>j. g (j, xs ! j)) [0..<length xs]"
  by (rule nth_equalityI) (simp_all add: nth_enumerate_eq)

text \<open>The digits of a number: \<open>str_nat n\<close> has at most \<open>k\<close> of them exactly when \<open>n < 10 ^ k\<close>.\<close>

lemma str_nat_nonempty: "str_nat n \<noteq> []"
  by (subst str_nat.simps) simp

lemma length_str_nat_le:
  "0 < k \<Longrightarrow> length (str_nat n) \<le> k \<longleftrightarrow> n < 10 ^ k"
proof (induction n arbitrary: k rule: str_nat.induct)
  case (1 n)
  show ?case
  proof (cases "n < 10")
    case True
    have "length (str_nat n) = 1"
      using True by (subst str_nat.simps) simp
    moreover have "(10::nat) \<le> 10 ^ k"
      using "1.prems" by (intro self_le_power) simp_all
    ultimately show ?thesis
      using True "1.prems" by simp
  next
    case False
    have len: "length (str_nat n) = Suc (length (str_nat (n div 10)))"
      using False by (subst str_nat.simps) simp
    obtain k' where k: "k = Suc k'"
      using "1.prems" by (cases k) simp_all
    show ?thesis
    proof (cases "k' = 0")
      case True
      have "length (str_nat (n div 10)) \<noteq> 0"
        using str_nat_nonempty [of "n div 10"] by simp
      then show ?thesis
        using False True k len by simp
    next
      case nz: False
      have "length (str_nat (n div 10)) \<le> k' \<longleftrightarrow> n div 10 < 10 ^ k'"
        using "1.IH" [of k'] False nz by simp
      moreover have "n div 10 < 10 ^ k' \<longleftrightarrow> n < 10 ^ k' * 10"
        by (rule div_less_iff_less_mult) simp
      ultimately show ?thesis
        using k len by (simp add: mult.commute)
    qed
  qed
qed

lemma int_max_str_digits_pos: "0 < int_max_str_digits"
  by (simp add: int_max_str_digits_def)

lemma str_int_raises_iff:
  "str_int i = Inl str_digits_error \<longleftrightarrow> 10 ^ int_max_str_digits \<le> \<bar>i\<bar>"
proof -
  have "length (str_nat (nat \<bar>i\<bar>)) \<le> int_max_str_digits \<longleftrightarrow> nat \<bar>i\<bar> < 10 ^ int_max_str_digits"
    by (rule length_str_nat_le) (rule int_max_str_digits_pos)
  also have "\<dots> \<longleftrightarrow> \<bar>i\<bar> < 10 ^ int_max_str_digits"
    by (simp add: nat_less_iff)
  finally show ?thesis
    by (auto simp add: str_int_def Let_def)
qed

lemma str_int_returns:
  "\<bar>i\<bar> < 10 ^ int_max_str_digits \<Longrightarrow> \<not> isl (str_int i)"
  using str_int_raises_iff [of i] by (auto simp add: str_int_def Let_def)

lemma found_title_returns:
  "truthy q \<or> truthy tag \<or> \<bar>i\<bar> < 10 ^ int_max_str_digits \<Longrightarrow> \<not> isl (found_title q tag i)"
  using str_int_returns [of i]
  by (auto simp add: found_title_def truthy_def split: option.splits list.splits sum.splits)

lemma found_title_raises:
  "\<not> truthy q \<Longrightarrow> \<not> truthy tag \<Longrightarrow> 10 ^ int_max_str_digits \<le> \<bar>i\<bar> \<Longrightarrow>
     found_title q tag i = Inl str_digits_error"
  using str_int_raises_iff [of i]
  by (auto simp add: found_title_def truthy_def split: option.splits list.splits)

lemma sequence_results_returns:
  "(\<And>x. x \<in> set xs \<Longrightarrow> \<not> isl (f x)) \<Longrightarrow>
     sequence_results (map f xs) = Inr (map (\<lambda>x. projr (f x)) xs)"
proof (induction xs)
  case Nil
  show ?case by simp
next
  case (Cons a xs)
  have "\<not> isl (f a)"
    using Cons.prems by simp
  then obtain v where "f a = Inr v"
    by (cases "f a") simp_all
  moreover have "sequence_results (map f xs) = Inr (map (\<lambda>x. projr (f x)) xs)"
    using Cons.prems by (intro Cons.IH) simp
  ultimately show ?case
    by simp
qed

text \<open>
  Inside the bounds that \<open>PageMeta\<close> accepts, and when no title needs a number of more
  than 4300 digits, the search handler returns \<open>sz\<close> records numbered from
  \<open>(pg - 1) * sz\<close>.
\<close>

lemma search_videos_global_items:
  assumes "1 \<le> pg" and "1 \<le> sz" and "sz \<le> 200"
    and "truthy q \<or> truthy tag \<or> pg * sz \<le> 10 ^ int_max_str_digits"
  shows "search_videos_global rt q tag sort' pg sz =
           Inr \<lparr>meta = \<lparr>page = pg, size' = sz, total = 1000\<rparr>,
                items = map (\<lambda>j. \<lparr>VideoOut.id' = uuid4 rt (2 * j),
                                   owner_id = uuid4 rt (2 * j + 1),
                                   VideoOut.title = projr (found_title q tag ((pg - 1) * sz + int j)),
                                   VideoOut.description = None,
                                   VideoOut.tags = [],
                                   VideoOut.visibility = Public,
                                   duration_sec = None,
                                   VideoOut.status = ''ready'',
                                   VideoOut.created_at = now rt j\<rparr>) [0..<nat sz]\<rparr>"
proof -
  let ?xs = "py_range ((pg - 1) * sz) (pg * sz)"
  let ?f = "\<lambda>(j, i).
              case found_title q tag i of
                Inl e \<Rightarrow> Inl e
              | Inr t \<Rightarrow>
                  Inr \<lparr>VideoOut.id' = uuid4 rt (2 * j),
                       owner_id = uuid4 rt (2 * j + 1),
                       VideoOut.title = t,
                       VideoOut.description = None,
                       VideoOut.tags = [],
                       VideoOut.visibility = Public,
                       duration_sec = None,
                       VideoOut.status = ''ready'',
                       VideoOut.created_at = now rt j\<rparr>"
  have len: "length ?xs = nat sz"
    by (simp add: length_py_range algebra_simps)
  have nth: "?xs ! j = (pg - 1) * sz + int j" if "j < nat sz" for j
    using that by (intro py_range_nth) (simp add: algebra_simps)
  have title: "\<not> isl (found_title q tag i)" if "i \<in> set ?xs" for i
  proof -
    have lo: "0 \<le> (pg - 1) * sz"
      using assms(1,2) by simp
    have "(pg - 1) * sz \<le> i" and "i < pg * sz"
      using that by (simp_all add: py_range_def)
    then have "pg * sz \<le> 10 ^ int_max_str_digits \<Longrightarrow> \<bar>i\<bar> < 10 ^ int_max_str_digits"
      using lo by simp
    then show ?thesis
      using assms(4) by (intro found_title_returns) blast
  qed
  have ok: "\<not> isl (?f x)" if "x \<in> set (enumerate 0 ?xs)" for x
  proof -
    obtain j i where x: "x = (j, i)"
      by (cases x)
    have "i \<in> set ?xs"
      using that x by (auto simp add: in_set_enumerate_eq len)
    then show ?thesis
      using title [of i] x by (cases "found_title q tag i") simp_all
  qed
  have "sequence_results (map ?f (enumerate 0 ?xs))
          = Inr (map (\<lambda>x. projr (?f x)) (enumerate 0 ?xs))"
    using ok by (rule sequence_results_returns)
  also have "map (\<lambda>x. projr (?f x)) (enumerate 0 ?xs)
          = map (\<lambda>j. projr (?f (j, ?xs ! j))) [0..<length ?xs]"
    by (rule map_enumerate_nth)
  also have "\<dots> = map (\<lambda>j. \<lparr>VideoOut.id' = uuid4 rt (2 * j),
                            owner_id = uuid4 rt (2 * j + 1),
                            VideoOut.title = projr (found_title q tag ((pg - 1) * sz + int j)),
                            VideoOut.description = None,
                            VideoOut.tags = [],
                            VideoOut.visibility = Public,
                            duration_sec = None,
                            VideoOut.status = ''ready'',
                            VideoOut.created_at = now rt j\<rparr>) [0..<nat sz]"
  proof (rule map_cong)
    show "[0..<length ?xs] = [0..<nat sz]"
      by (simp add: len)
  next
    fix j assume "j \<in> set [0..<nat sz]"
    then have j: "j < nat sz"
      by simp
    then have "?xs ! j \<in> set ?xs"
      by (simp add: len)
    then have "\<not> isl (found_title q tag ((pg - 1) * sz + int j))"
      using title nth [OF j] by simp
    then show "projr (?f (j, ?xs ! j))
        = \<lparr>VideoOut.id' = uuid4 rt (2 * j),
           owner_id = uuid4 rt (2 * j + 1),
           VideoOut.title = projr (found_title q tag ((pg - 1) * sz + int j)),
           VideoOut.description = None,
           VideoOut.tags = [],
           VideoOut.visibility = Public,
           duration_sec = None,
           VideoOut.status = ''ready'',
           VideoOut.created_at = now rt j\<rparr>"
      using nth [OF j] by (cases "found_title q tag ((pg - 1) * sz + int j)") simp_all
  qed
  finally show ?thesis
    using assms(1-3) by (simp add: search_videos_global_def PageMeta_init_def)
qed

text \<open>
  Where the list is built, a \<open>page\<close> or \<open>size\<close> outside the bounds of \<open>PageMeta\<close>
  raises its validation error.
\<close>

lemma search_videos_global_raises:
  assumes "pg < 1 \<or> sz < 1 \<or> 200 < sz"
    and "\<And>i. i \<in> set (py_range ((pg - 1) * sz) (pg * sz)) \<Longrightarrow> \<not> isl (found_title q tag i)"
  shows "search_videos_global rt q tag sort' pg sz =
     (if pg < 1 then Inl (ValidationError ''page'') else Inl (ValidationError ''size''))"
proof -
  let ?xs = "py_range ((pg - 1) * sz) (pg * sz)"
  let ?f = "\<lambda>(j, i).
              case found_title q tag i of
                Inl e \<Rightarrow> Inl e
              | Inr t \<Rightarrow>
                  Inr \<lparr>VideoOut.id' = uuid4 rt (2 * j),
                       owner_id = uuid4 rt (2 * j + 1),
                       VideoOut.title = t,
                       VideoOut.description = None,
                       VideoOut.tags = [],
                       VideoOut.visibility = Public,
                       duration_sec = None,
                       VideoOut.status = ''ready'',
                       VideoOut.created_at = now rt j\<rparr>"
  have ok: "\<not> isl (?f x)" if "x \<in> set (enumerate 0 ?xs)" for x
  proof -
    obtain j i where x: "x = (j, i)"
      by (cases x)
    have "i \<in> set ?xs"
      using that x by (auto simp add: in_set_enumerate_eq)
    then show ?thesis
      using assms(2) [of i] x by (cases "found_title q tag i") simp_all
  qed
  have "sequence_results (map ?f (enumerate 0 ?xs))
          = Inr (map (\<lambda>x. projr (?f x)) (enumerate 0 ?xs))"
    using ok by (rule sequence_results_returns)
  then show ?thesis
    using assms(1) by (auto simp add: search_videos_global_def PageMeta_init_def)
qed

lemma search_videos_global_page_zero:
  "search_videos_global rt q tag sort' 0 20 = Inl (ValidationError ''page'')"
proof -
  have "(10::int) ^ 2 \<le> 10 ^ int_max_str_digits"
    by (rule power_increasing) (simp_all add: int_max_str_digits_def)
  then have bound: "(100::int) \<le> 10 ^ int_max_str_digits"
    by simp
  have "\<not> isl (found_title q tag i)" if "i \<in> set (py_range ((0 - 1) * 20) (0 * 20))" for i
  proof -
    have "\<bar>i\<bar> < 10 ^ int_max_str_digits"
      using that bound by (simp add: py_range_def)
    then show ?thesis
      by (intro found_title_returns) simp
  qed
  then show ?thesis
    using search_videos_global_raises [of 0 20 q tag rt sort'] by simp
qed

text \<open>
  With neither \<open>q\<close> nor \<open>tag\<close> given, a first number of more than 4300 digits makes the
  title's formatting raise before any response is built.
\<close>

lemma search_videos_global_value_error:
  assumes "\<not> truthy q" and "\<not> truthy tag" and "1 \<le> sz"
    and "10 ^ int_max_str_digits \<le> (pg - 1) * sz"
  shows "search_videos_global rt q tag sort' pg sz = Inl str_digits_error"
proof -
  have "(pg - 1) * sz < pg * sz"
    using assms(3) by (simp add: algebra_simps)
  then have "py_range ((pg - 1) * sz) (pg * sz)
      = (pg - 1) * sz # py_range ((pg - 1) * sz + 1) (pg * sz)"
    by (simp add: py_range_def upto_rec1)
  moreover have "found_title q tag ((pg - 1) * sz) = Inl str_digits_error"
    using assms(1,2,4) by (intro found_title_raises) simp_all
  ultimately show ?thesis
    by (simp add: search_videos_global_def enumerate_simps)
qed

lemma init_upload_returns:
  "init_upload rt filename content_type file = Inr \<lparr>UploadInitResponse.video_id = uuid4 rt 0\<rparr>"
  by (simp add: init_upload_def)

text \<open>
  C10. For every video id, \<open>get_processing_status\<close> returns a record with that video id,
  status "running" and progress 42. The handler reads nothing but the id, so the reported
  status does not depend on any lifecycle of the video, and it is never "queued", "ready"
  or "failed".
\<close>

theorem get_processing_status_constant:
  "get_processing_status v =
     Inr \<lparr>ProcessStatus.video_id = v, ProcessStatus.status = ''running'', progress = 42\<rparr>
   \<and> (\<exists>r. get_processing_status v = Inr r
          \<and> ProcessStatus.video_id r = v
          \<and> ProcessStatus.status r = ''running''
          \<and> progress r = 42
          \<and> ProcessStatus.status r \<noteq> ''queued''
          \<and> ProcessStatus.status r \<noteq> ''ready''
          \<and> ProcessStatus.status r \<noteq> ''failed'')"
  by (simp add: get_processing_status_def ProcessStatus_init_def)

text \<open>
  C9. For every ViewPing, \<open>ping_view\<close> returns an acknowledgement whose \<open>counted\<close> is true
  exactly when \<open>position_sec\<close> is strictly greater than 10, and whose \<open>view_id\<close> is
  present exactly when \<open>counted\<close> is true.
  The request model admits \<open>position_sec \<ge> 0\<close> only; the property holds for every
  integer. At position 10 the view is not counted, at 11 it is.
\<close>

theorem ping_view_counted_iff:
  "\<exists>ack. ping_view rt body = Inr ack
     \<and> ViewAck.video_id ack = ViewPing.video_id body
     \<and> (counted ack \<longleftrightarrow> position_sec body > 10)
     \<and> (view_id ack \<noteq> None \<longleftrightarrow> counted ack)"
  by (simp add: ping_view_def Let_def)

theorem ping_view_counted_iff_witness:
  "ping_view \<lparr>uuid4 = (\<lambda>k. 7 + of_nat k), now = (\<lambda>k. 0)\<rparr>
       \<lparr>ViewPing.video_id = 5, position_sec = 10\<rparr>
     = Inr \<lparr>ViewAck.video_id = 5, counted = False, view_id = None\<rparr>
   \<and> ping_view \<lparr>uuid4 = (\<lambda>k. 7 + of_nat k), now = (\<lambda>k. 0)\<rparr>
       \<lparr>ViewPing.video_id = 5, position_sec = 11\<rparr>
     = Inr \<lparr>ViewAck.video_id = 5, counted = True, view_id = Some 7\<rparr>"
  using ping_view_counted_iff
    [of "\<lparr>uuid4 = (\<lambda>k. 7 + of_nat k), now = (\<lambda>k. 0)\<rparr>"
        "\<lparr>ViewPing.video_id = 5, position_sec = 10\<rparr>"]
  by (simp add: ping_view_def)

text \<open>
  C8. Every call of \<open>get_me\<close> fails, whatever the authorization header: the handler
  reads the name \<^verbatim>\<open>user_id\<close>, which neither its parameters nor the module bind, so
  \<^verbatim>\<open>NameError\<close> is raised and no \<open>UserOut\<close> is ever returned.
\<close>

theorem get_me_always_raises:
  "get_me rt authorization = Inl (NameError ''user_id'')
   \<and> (\<nexists>u. get_me rt authorization = Inr u)"
  by (simp add: get_me_def load_name_def module_names_no_user_id)

text \<open>
  C7. The claim that no handler other than \<open>refresh\<close> raises is broken by \<open>get_me\<close>:
  called with the header "Bearer demo" it raises \<^verbatim>\<open>NameError\<close>, which is not the
  HTTP 400 that \<open>refresh\<close> raises on an empty token.
\<close>

theorem get_me_raises_at_demo:
  "get_me \<lparr>uuid4 = (\<lambda>k. 7 + of_nat k), now = (\<lambda>k. 0)\<rparr> ''Bearer demo''
     = Inl (NameError ''user_id'')
   \<and> refresh \<lparr>RefreshRequest.refresh_token = []\<rparr>
     = Inl (HTTPException 400 ''invalid refresh_token'')
   \<and> refresh \<lparr>RefreshRequest.refresh_token = ''r1''\<rparr>
     = Inr \<lparr>access_token = ''access.refreshed'', TokenPair.refresh_token = ''r1'',
            token_type = ''Bearer'', expires_in = 3500\<rparr>"
  by (simp add: get_me_def load_name_def module_names_def refresh_def)

text \<open>
  C1, as amended. \<open>publish_video\<close> never fails, whatever the status of the video: it
  returns the request's video id, visibility public when \<open>make_public\<close> is set and
  unlisted otherwise, and the time of the call. A second call with the same request
  returns the same video id and visibility, with the time of the second call.
\<close>

theorem publish_video_never_fails:
  "publish_video rt body =
     Inr \<lparr>PublishResponse.video_id = PublishRequest.video_id body,
          PublishResponse.visibility = (if make_public body then Public else Unlisted),
          published_at = now rt 0\<rparr>
   \<and> (\<exists>r r'. publish_video rt body = Inr r \<and> publish_video rt' body = Inr r'
         \<and> PublishResponse.video_id r' = PublishResponse.video_id r
         \<and> PublishResponse.visibility r' = PublishResponse.visibility r
         \<and> published_at r' = now rt' 0)"
  by (simp add: publish_video_def)

theorem publish_video_never_fails_witness:
  "\<exists>r r'. publish_video \<lparr>uuid4 = (\<lambda>k. 7 + of_nat k), now = (\<lambda>k. 2000)\<rparr>
              \<lparr>PublishRequest.video_id = 7, make_public = False\<rparr> = Inr r
         \<and> publish_video \<lparr>uuid4 = (\<lambda>k. 7 + of_nat k), now = (\<lambda>k. 3000)\<rparr>
              \<lparr>PublishRequest.video_id = 7, make_public = False\<rparr> = Inr r'
         \<and> PublishResponse.video_id r = 7 \<and> PublishResponse.video_id r' = 7
         \<and> PublishResponse.visibility r = Unlisted \<and> PublishResponse.visibility r' = Unlisted
         \<and> published_at r = 2000 \<and> published_at r' = 3000"
  using publish_video_never_fails
    [of "\<lparr>uuid4 = (\<lambda>k. 7 + of_nat k), now = (\<lambda>k. 2000)\<rparr>"
        "\<lparr>PublishRequest.video_id = 7, make_public = False\<rparr>"
        "\<lparr>uuid4 = (\<lambda>k. 7 + of_nat k), now = (\<lambda>k. 3000)\<rparr>"]
  by auto

text \<open>
  C1, the claim as stated fails: the video that \<open>create_video\<close> has just returned with
  status "uploaded", and for which \<open>get_processing_status\<close> reports "running", is
  published by \<open>publish_video\<close> without any failure.
\<close>

theorem publish_not_ready_counterexample:
  "create_video \<lparr>uuid4 = (\<lambda>k. 7 + of_nat k), now = (\<lambda>k. 1000)\<rparr>
       \<lparr>VideoCreate.title = ''clip'', VideoCreate.description = None, VideoCreate.tags = [],
        VideoCreate.visibility = Private\<rparr> 3
     = Inr \<lparr>VideoOut.id' = 7, owner_id = 3, VideoOut.title = ''clip'',
            VideoOut.description = None, VideoOut.tags = [], VideoOut.visibility = Private,
            duration_sec = None, VideoOut.status = ''uploaded'', VideoOut.created_at = 1000\<rparr>
   \<and> ''uploaded'' \<noteq> ''ready''
   \<and> get_processing_status 7
       = Inr \<lparr>ProcessStatus.video_id = 7, ProcessStatus.status = ''running'', progress = 42\<rparr>
   \<and> ''running'' \<noteq> ''ready''
   \<and> publish_video \<lparr>uuid4 = (\<lambda>k. 7 + of_nat k), now = (\<lambda>k. 2000)\<rparr>
         \<lparr>PublishRequest.video_id = 7, make_public = True\<rparr>
       = Inr \<lparr>PublishResponse.video_id = 7, PublishResponse.visibility = Public,
              published_at = 2000\<rparr>
   \<and> \<not> isl (publish_video \<lparr>uuid4 = (\<lambda>k. 7 + of_nat k), now = (\<lambda>k. 2000)\<rparr>
         \<lparr>PublishRequest.video_id = 7, make_public = True\<rparr>)"
  by (simp add: create_video_def get_processing_status_def ProcessStatus_init_def publish_video_def)

text \<open>
  C6, as amended. What \<open>search_videos_global\<close> lists does not depend on what has been
  published: for \<open>1 \<le> page\<close> and \<open>1 \<le> size \<le> 200\<close>, and with \<open>q\<close> or \<open>tag\<close> a
  non-empty string or \<open>page * size \<le> 10 ^ 4300\<close> (so that no title formats a number of
  more than 4300 digits), it returns exactly \<open>size\<close> fabricated videos, each public and
  "ready", whose ids are the values that \<^verbatim>\<open>uuid4()\<close> generated during the call.
\<close>

theorem search_videos_global_fabricates:
  assumes "1 \<le> pg" and "1 \<le> sz" and "sz \<le> 200"
    and "truthy q \<or> truthy tag \<or> pg * sz \<le> 10 ^ int_max_str_digits"
  shows "\<exists>r. search_videos_global rt q tag sort' pg sz = Inr r
           \<and> meta r = \<lparr>page = pg, size' = sz, total = 1000\<rparr>
           \<and> length (items r) = nat sz
           \<and> map VideoOut.id' (items r) = map (\<lambda>j. uuid4 rt (2 * j)) [0..<nat sz]
           \<and> (\<forall>v \<in> set (items r). VideoOut.visibility v = Public \<and> VideoOut.status v = ''ready'')
           \<and> discoverable_ids (search_videos_global rt q tag sort' pg sz)
               = (\<lambda>j. uuid4 rt (2 * j)) ` {..<nat sz}"
  by (auto simp add: search_videos_global_items [OF assms] discoverable_ids_def comp_def
      lessThan_atLeast0 image_def)

theorem search_videos_global_fabricates_witness:
  "(1::int) \<le> 1 \<and> (1::int) \<le> 2 \<and> (2::int) \<le> 200
   \<and> (1::int) * 2 \<le> 10 ^ int_max_str_digits
   \<and> (\<exists>r. search_videos_global \<lparr>uuid4 = (\<lambda>k. 7 + of_nat k), now = (\<lambda>k. 0)\<rparr>
              None None Desc 1 2 = Inr r
          \<and> length (items r) = 2
          \<and> map VideoOut.id' (items r) = [7, 9])"
proof -
  have "(10::int) \<le> 10 ^ int_max_str_digits"
    using int_max_str_digits_pos by (intro self_le_power) simp_all
  then have bound: "(1::int) * 2 \<le> 10 ^ int_max_str_digits"
    by simp
  then have "truthy None \<or> truthy None \<or> (1::int) * 2 \<le> 10 ^ int_max_str_digits"
    by simp
  from search_videos_global_fabricates
    [of 1 2 None None "\<lparr>uuid4 = (\<lambda>k. 7 + of_nat k), now = (\<lambda>k. 0)\<rparr>" Desc, OF _ _ _ this]
  show ?thesis
    using bound by (auto simp add: upt_rec numeral_2_eq_2)
qed

text \<open>
  C6, the claim as stated fails: after a single publish call, for video 1, a search of
  page 1 with size 1 lists the video 7, which no call has published.
\<close>

theorem search_lists_unpublished_counterexample:
  "published_ids \<lparr>uuid4 = (\<lambda>k. 7 + of_nat k), now = (\<lambda>k. 0)\<rparr>
       [\<lparr>PublishRequest.video_id = 1, make_public = True\<rparr>] = {1}
   \<and> discoverable_ids
        (search_videos_global \<lparr>uuid4 = (\<lambda>k. 7 + of_nat k), now = (\<lambda>k. 0)\<rparr>
           None None Desc 1 1) = {7}
   \<and> \<not> discoverable_ids
        (search_videos_global \<lparr>uuid4 = (\<lambda>k. 7 + of_nat k), now = (\<lambda>k. 0)\<rparr>
           None None Desc 1 1)
       \<subseteq> published_ids \<lparr>uuid4 = (\<lambda>k. 7 + of_nat k), now = (\<lambda>k. 0)\<rparr>
           [\<lparr>PublishRequest.video_id = 1, make_public = True\<rparr>]"
  by (simp add: published_ids_def publish_video_def discoverable_ids_def
      search_videos_global_def PageMeta_init_def py_range_def enumerate_eq_zip
      found_title_def str_int_def str_nat.simps [of 0] int_max_str_digits_def)

end
